theory Spec2Isabelle
  imports
    Main
    "HOL-Library.Word"
    "HOL-Library.Char_ord"
    "HOL-Library.List_Lexorder"
    "HOL-Library.Multiset"
    "HOL-Library.Sublist"
begin

section \<open>The bulk-operations query builder of n2s\<close>

text \<open>
  This theory embeds the query builder of \<^verbatim>\<open>internal/ui/context_view.go\<close>
  (type \<^verbatim>\<open>QueryBuilderView\<close>) together with the parts of \<^verbatim>\<open>ui.go\<close>,
  \<^verbatim>\<open>components/modal.go\<close>, \<^verbatim>\<open>models\<close> and the NATS client that it calls.
  Go strings are byte strings (\<^typ>\<open>string\<close>), Go's \<^verbatim>\<open>int\<close> and \<^verbatim>\<open>int64\<close> are 64-bit
  integers, \<^verbatim>\<open>uint64\<close> is \<^typ>\<open>64 word\<close>. Code of the Go standard library and of
  third-party packages (\<^verbatim>\<open>fmt.Sscanf\<close>, \<^verbatim>\<open>regexp\<close>, \<^verbatim>\<open>sort.Slice\<close>, the JetStream
  context, the YAML codec, the file system) is not part of the repository; each
  subsection says how it enters the model.
\<close>

subsection \<open>models.Stream\<close>

text \<open>
  Of \<^verbatim>\<open>models.Stream\<close> the query builder reads \<^verbatim>\<open>Name\<close>, \<^verbatim>\<open>Consumers\<close>,
  \<^verbatim>\<open>State.Messages\<close> and \<^verbatim>\<open>State.FirstTime\<close>. A \<^verbatim>\<open>time.Time\<close> is an instant,
  given here in nanoseconds on an unbounded axis.
\<close>

record StreamState =
  Messages :: "64 word"
  FirstTime :: int

record Stream =
  Name :: string
  Consumers :: int
  State :: StreamState

subsection \<open>QueryBuilderView: filter criteria and preview data\<close>

record QueryBuilderView =
  namePattern :: string
  ageOp :: string
  ageValue :: string
  ageUnit :: string
  consumerOp :: string
  consumerValue :: string
  messagesOp :: string
  messagesValue :: string
  matchedStreams :: "Stream list"
  sortColumn :: int
  sortAscending :: bool

text \<open>The field values set by \<^verbatim>\<open>NewQueryBuilderView\<close>.\<close>

definition NewQueryBuilderView :: QueryBuilderView where
  "NewQueryBuilderView =
     \<lparr>namePattern = ''*'', ageOp = ''any'', ageValue = '''', ageUnit = ''h'',
      consumerOp = ''any'', consumerValue = '''', messagesOp = ''any'', messagesValue = '''',
      matchedStreams = [], sortColumn = 0, sortAscending = True\<rparr>"

subsection \<open>Machine integers and durations\<close>

text \<open>
  \<^verbatim>\<open>time.Duration\<close> is an \<^verbatim>\<open>int64\<close> count of nanoseconds. Multiplication wraps
  around, \<^verbatim>\<open>/\<close> truncates towards zero, and \<^verbatim>\<open>Time.Sub\<close> (behind \<^verbatim>\<open>time.Since\<close>)
  saturates at the least and greatest duration.
\<close>

definition int64 :: "int \<Rightarrow> int" where
  "int64 x = (x + 2 ^ 63) mod 2 ^ 64 - 2 ^ 63"

definition quo :: "int \<Rightarrow> int \<Rightarrow> int" where
  "quo a b = sgn a * sgn b * (\<bar>a\<bar> div \<bar>b\<bar>)"

definition Minute :: int where
  "Minute = 60000000000"

definition Hour :: int where
  "Hour = 3600000000000"

definition Since :: "int \<Rightarrow> int \<Rightarrow> int" where
  "Since now t = max (- (2 ^ 63)) (min (2 ^ 63 - 1) (now - t))"

subsection \<open>fmt.Sscanf with the verb %d\<close>

text \<open>
  \<^verbatim>\<open>fmt.Sscanf(s, "%d", &x)\<close> skips leading white space (a newline is an error),
  accepts one sign, reads the longest run of characters from \<^verbatim>\<open>0123456789_\<close> and hands
  sign and run to \<^verbatim>\<open>strconv.ParseInt(tok, 10, 64)\<close>, which rejects an empty run, an
  underscore and a value outside the 64-bit range. Input after the number is left unread.
  The count \<^verbatim>\<open>n\<close> returned is 1 when a number was stored and 0 otherwise:
  \<open>Sscanf_d s = Some x\<close> stands for \<^verbatim>\<open>n = 1\<close> with \<^verbatim>\<open>x\<close> stored, \<open>None\<close> for
  \<^verbatim>\<open>n = 0\<close>. White space is the ASCII white space; the value strings of the view come
  from integer input fields and from \<^verbatim>\<open>Sprintf("%d")\<close>.
\<close>

definition isSpace :: "char \<Rightarrow> bool" where
  "isSpace c = (c = CHR '' '' \<or> (9 \<le> (of_char c :: nat) \<and> (of_char c :: nat) \<le> 13))"

fun SkipSpace :: "string \<Rightarrow> string option" where
  "SkipSpace [] = Some []"
| "SkipSpace (c # cs) =
     (if c = CHR 0x0A then None
      else if isSpace c then SkipSpace cs
      else Some (c # cs))"

definition decimalDigits :: string where
  "decimalDigits = ''0123456789_''"

definition digit_val :: "char \<Rightarrow> nat" where
  "digit_val c = (of_char c :: nat) - 48"

definition ParseUint :: "string \<Rightarrow> nat option" where
  "ParseUint tok =
     (if tok = [] \<or> CHR ''_'' \<in> set tok then None
      else Some (foldl (\<lambda>n c. 10 * n + digit_val c) 0 tok))"

definition ParseInt :: "bool \<Rightarrow> string \<Rightarrow> int option" where
  "ParseInt neg tok =
     (case ParseUint tok of
        None \<Rightarrow> None
      | Some n \<Rightarrow>
          (if neg then (if n \<le> 2 ^ 63 then Some (- int n) else None)
           else (if n < 2 ^ 63 then Some (int n) else None)))"

definition scanInt :: "string \<Rightarrow> int option" where
  "scanInt s =
     (let neg = (s \<noteq> [] \<and> hd s = CHR ''-'');
          r = (if s \<noteq> [] \<and> (hd s = CHR ''+'' \<or> hd s = CHR ''-'') then tl s else s)
      in ParseInt neg (takeWhile (\<lambda>c. c \<in> set decimalDigits) r))"

definition Sscanf_d :: "string \<Rightarrow> int option" where
  "Sscanf_d s =
     (case SkipSpace s of
        None \<Rightarrow> None
      | Some r \<Rightarrow> (if r = [] then None else scanInt r))"

subsection \<open>regexp.MatchString\<close>

text \<open>
  The regular-expression engine is library code. \<^verbatim>\<open>matchesFilter\<close> takes it as the
  parameter \<open>rx\<close>: \<open>rx pattern s = None\<close> when the pattern does not compile
  (\<^verbatim>\<open>err != nil\<close>) and \<open>Some matched\<close> otherwise, so that the general theorems hold
  for every engine. The concrete statements use \<open>MatchString\<close> below, which
  implements the RE2 syntax for patterns \<^verbatim>\<open>^body$\<close> whose body is made of ASCII
  literals, \<^verbatim>\<open>.\<close> (any character but newline) and the postfix operators \<^verbatim>\<open>*\<close>,
  \<^verbatim>\<open>+\<close>, \<^verbatim>\<open>?\<close>, each optionally followed by the lazy marker \<^verbatim>\<open>?\<close>. A repetition
  operator with nothing to repeat and a stacked repetition operator are compile errors in
  RE2 as well. Every other pattern (classes, groups, alternation, escapes, counted
  repetition, inner anchors, non-ASCII bytes) is outside this fragment; \<open>MatchString\<close>
  answers \<open>None\<close> there and no statement below evaluates it on such a pattern.
\<close>

datatype re_atom = Lit char | AnyChar

datatype re_item = One re_atom | Star re_atom | Plus re_atom | Quest re_atom

definition re_meta :: string where
  "re_meta = [CHR 0x5C] @ ''.+*?()|[]{}^$''"

definition parse_atom :: "char \<Rightarrow> re_atom option" where
  "parse_atom c =
     (if c = CHR ''.'' then Some AnyChar
      else if c \<in> set re_meta \<or> 128 \<le> (of_char c :: nat) then None
      else Some (Lit c))"

fun drop_lazy :: "string \<Rightarrow> string" where
  "drop_lazy (c # cs) = (if c = CHR ''?'' then cs else c # cs)"
| "drop_lazy [] = []"

function parse_body :: "string \<Rightarrow> re_item list option" where
  "parse_body [] = Some []"
| "parse_body (c # cs) =
     (case parse_atom c of
        None \<Rightarrow> None
      | Some a \<Rightarrow>
          (case cs of
             [] \<Rightarrow> Some [One a]
           | d # ds \<Rightarrow>
               (if d = CHR ''*'' \<or> d = CHR ''+'' \<or> d = CHR ''?'' then
                  (let rest = drop_lazy ds in
                   if rest \<noteq> [] \<and> (hd rest = CHR ''*'' \<or> hd rest = CHR ''+'' \<or> hd rest = CHR ''?'')
                   then None
                   else map_option
                          (\<lambda>r. (if d = CHR ''*'' then Star a
                                else if d = CHR ''+'' then Plus a else Quest a) # r)
                          (parse_body rest))
                else map_option (\<lambda>r. One a # r) (parse_body cs))))"
  by pat_completeness auto

lemma length_drop_lazy: "length (drop_lazy s) \<le> length s"
  by (cases s) auto

termination parse_body
proof (relation "measure length")
  show "wf (measure length)" by simp
next
  fix c cs a d ds rest
  assume "cs = d # ds" and "rest = drop_lazy ds"
  then show "(rest, c # cs) \<in> measure length"
    using length_drop_lazy [of ds] by simp
next
  fix c :: char and cs :: string
  show "(cs, c # cs) \<in> measure length" by simp
qed

fun atom_matches :: "re_atom \<Rightarrow> char \<Rightarrow> bool" where
  "atom_matches (Lit c) x = (x = c)"
| "atom_matches AnyChar x = (x \<noteq> CHR 0x0A)"

fun items_match :: "re_item list \<Rightarrow> string \<Rightarrow> bool" where
  "items_match [] s = (s = [])"
| "items_match (One a # r) [] = False"
| "items_match (One a # r) (c # cs) = (atom_matches a c \<and> items_match r cs)"
| "items_match (Star a # r) [] = items_match r []"
| "items_match (Star a # r) (c # cs) =
     (items_match r (c # cs) \<or> (atom_matches a c \<and> items_match (Star a # r) cs))"
| "items_match (Plus a # r) [] = False"
| "items_match (Plus a # r) (c # cs) = (atom_matches a c \<and> items_match (Star a # r) cs)"
| "items_match (Quest a # r) [] = items_match r []"
| "items_match (Quest a # r) (c # cs) =
     (items_match r (c # cs) \<or> (atom_matches a c \<and> items_match r cs))"

definition MatchString :: "string \<Rightarrow> string \<Rightarrow> bool option" where
  "MatchString pattern s =
     (if length pattern < 2 then None
      else if hd pattern = CHR ''^'' \<and> last pattern = CHR ''$''
              \<and> list_all (\<lambda>c. (of_char c :: nat) < 128) s
      then map_option (\<lambda>items. items_match items s) (parse_body (butlast (tl pattern)))
      else None)"

subsection \<open>matchesFilter and filterStreams\<close>

text \<open>\<^verbatim>\<open>strings.ReplaceAll(s, old, new)\<close> for an \<^verbatim>\<open>old\<close> of one character.\<close>

definition ReplaceAll :: "string \<Rightarrow> char \<Rightarrow> string \<Rightarrow> string" where
  "ReplaceAll s old new = concat (map (\<lambda>c. if c = old then new else [c]) s)"

definition compareAge :: "int \<Rightarrow> string \<Rightarrow> int \<Rightarrow> bool" where
  "compareAge actual op target =
     (if op = ''>'' then actual > target
      else if op = ''<'' then actual < target
      else if op = ''='' then
        actual \<ge> quo (int64 (target * 9)) 10 \<and> actual \<le> quo (int64 (target * 11)) 10
      else True)"

definition compareInt :: "int \<Rightarrow> string \<Rightarrow> int \<Rightarrow> bool" where
  "compareInt actual op target =
     (if op = ''='' then actual = target
      else if op = ''>'' then actual > target
      else if op = ''<'' then actual < target
      else True)"

definition compareInt64 :: "int \<Rightarrow> string \<Rightarrow> int \<Rightarrow> bool" where
  "compareInt64 actual op target =
     (if op = ''='' then actual = target
      else if op = ''>'' then actual > target
      else if op = ''<'' then actual < target
      else True)"

text \<open>
  \<^verbatim>\<open>matchesFilter\<close> is a sequence of four blocks with early returns. The three
  definitions below are the function from its messages block, from its consumer block and
  from its age block to its end; \<open>matchesFilter\<close> is the whole function. \<open>now\<close> is
  the reading of the clock that \<^verbatim>\<open>time.Since\<close> takes.
\<close>

definition matchesFilter_messages :: "QueryBuilderView \<Rightarrow> Stream \<Rightarrow> bool" where
  "matchesFilter_messages v stream =
     (if messagesOp v \<noteq> ''any'' \<and> messagesValue v \<noteq> '''' then
        (case Sscanf_d (messagesValue v) of
           None \<Rightarrow> True
         | Some msgVal \<Rightarrow>
             (if \<not> compareInt64 (sint (Messages (State stream))) (messagesOp v) msgVal
              then False else True))
      else True)"

definition matchesFilter_consumer :: "QueryBuilderView \<Rightarrow> Stream \<Rightarrow> bool" where
  "matchesFilter_consumer v stream =
     (if consumerOp v \<noteq> ''any'' \<and> consumerValue v \<noteq> '''' then
        (case Sscanf_d (consumerValue v) of
           None \<Rightarrow> True
         | Some consVal \<Rightarrow>
             (if \<not> compareInt (Consumers stream) (consumerOp v) consVal
              then False else matchesFilter_messages v stream))
      else matchesFilter_messages v stream)"

definition matchesFilter_age :: "int \<Rightarrow> QueryBuilderView \<Rightarrow> Stream \<Rightarrow> bool" where
  "matchesFilter_age now v stream =
     (if ageOp v \<noteq> ''any'' \<and> ageValue v \<noteq> '''' then
        (let age = Since now (FirstTime (State stream)) in
         case Sscanf_d (ageValue v) of
           None \<Rightarrow> True
         | Some ageVal \<Rightarrow>
             (let targetDuration =
                    (if ageUnit v = ''m'' then int64 (ageVal * Minute)
                     else int64 (ageVal * Hour))
              in if \<not> compareAge age (ageOp v) targetDuration
                 then False else matchesFilter_consumer v stream))
      else matchesFilter_consumer v stream)"

definition matchesFilter ::
  "(string \<Rightarrow> string \<Rightarrow> bool option) \<Rightarrow> int \<Rightarrow> QueryBuilderView \<Rightarrow> Stream \<Rightarrow> bool" where
  "matchesFilter rx now v stream =
     (if namePattern v \<noteq> ''*'' \<and> namePattern v \<noteq> '''' then
        (let pattern = ''^'' @ ReplaceAll (namePattern v) (CHR ''*'') ''.*'' @ ''$'' in
         case rx pattern (Name stream) of
           None \<Rightarrow> False
         | Some matched \<Rightarrow>
             (if \<not> matched then False else matchesFilter_age now v stream))
      else matchesFilter_age now v stream)"

text \<open>The loop of \<^verbatim>\<open>filterStreams\<close>, with the slice \<^verbatim>\<open>matched\<close> as accumulator.\<close>

fun filterStreams_loop ::
  "(string \<Rightarrow> string \<Rightarrow> bool option) \<Rightarrow> int \<Rightarrow> QueryBuilderView \<Rightarrow> Stream list
     \<Rightarrow> Stream list \<Rightarrow> Stream list" where
  "filterStreams_loop rx now v matched [] = matched"
| "filterStreams_loop rx now v matched (stream # streams) =
     filterStreams_loop rx now v
       (if matchesFilter rx now v stream then matched @ [stream] else matched) streams"

definition filterStreams ::
  "(string \<Rightarrow> string \<Rightarrow> bool option) \<Rightarrow> int \<Rightarrow> QueryBuilderView \<Rightarrow> Stream list
     \<Rightarrow> Stream list" where
  "filterStreams rx now v streams = filterStreams_loop rx now v [] streams"

subsection \<open>Sprintf("%d") and strings.Join\<close>

fun digit_char :: "nat \<Rightarrow> char" where
  "digit_char n = char_of (48 + n)"

function utoa :: "nat \<Rightarrow> string" where
  "utoa n = (if n < 10 then [digit_char n] else utoa (n div 10) @ [digit_char (n mod 10)])"
  by pat_completeness auto

termination utoa
  by (relation "measure id") auto

declare utoa.simps [simp del]

definition itoa :: "int \<Rightarrow> string" where
  "itoa i = (if i < 0 then CHR ''-'' # utoa (nat (- i)) else utoa (nat i))"

fun Join :: "string list \<Rightarrow> string \<Rightarrow> string" where
  "Join [] sep = []"
| "Join [x] sep = x"
| "Join (x # y # ys) sep = x @ sep @ Join (y # ys) sep"

definition nl :: string where
  "nl = [CHR 0x0A]"

subsection \<open>The NATS client\<close>

text \<open>
  The client (\<^verbatim>\<open>package nats\<close>) wraps a JetStream context \<^verbatim>\<open>c.js\<close>, which is the
  remote server as the program sees it. The server is a parameter of the model: a state of
  any type \<open>'w\<close> and, in the record \<open>JetStream\<close>, what the three calls used here
  answer and how they change the state (\<open>None\<close> is the \<^verbatim>\<open>nil\<close> error).
  \<open>js_StreamsInfo\<close> gives the streams that the channel of \<^verbatim>\<open>StreamsInfo()\<close>
  delivers, with the fields that \<^verbatim>\<open>ListStreams\<close> copies into \<^verbatim>\<open>models.Stream\<close>.
  The client state pairs the server with \<open>sent\<close>, the trace of the delete and purge
  requests issued so far; the trace is kept by the model only, to state which external
  calls a function makes.
\<close>

datatype request = Delete string | Purge string

record 'w JetStream =
  js_StreamsInfo :: "'w \<Rightarrow> Stream list"
  js_DeleteStream :: "string \<Rightarrow> 'w \<Rightarrow> string option \<times> 'w"
  js_PurgeStream :: "string \<Rightarrow> 'w \<Rightarrow> string option \<times> 'w"

record 'w Client =
  server :: 'w
  sent :: "request list"

definition ListStreams :: "'w JetStream \<Rightarrow> 'w Client \<Rightarrow> Stream list \<times> string option" where
  "ListStreams js c = (js_StreamsInfo js (server c), None)"

definition DeleteStream ::
  "'w JetStream \<Rightarrow> string \<Rightarrow> 'w Client \<Rightarrow> string option \<times> 'w Client" where
  "DeleteStream js name c =
     (case js_DeleteStream js name (server c) of
        (err, w) \<Rightarrow>
          (map_option (\<lambda>e. ''failed to delete stream: '' @ e) err,
           c\<lparr>server := w, sent := sent c @ [Delete name]\<rparr>))"

definition PurgeStream ::
  "'w JetStream \<Rightarrow> string \<Rightarrow> 'w Client \<Rightarrow> string option \<times> 'w Client" where
  "PurgeStream js name c =
     (case js_PurgeStream js name (server c) of
        (err, w) \<Rightarrow>
          (map_option (\<lambda>e. ''failed to purge stream: '' @ e) err,
           c\<lparr>server := w, sent := sent c @ [Purge name]\<rparr>))"

subsection \<open>UIManager and modals\<close>

text \<open>
  A modal is the page \<^verbatim>\<open>"modal"\<close> of \<^verbatim>\<open>ui.pages\<close>; \<^verbatim>\<open>AddPage\<close> replaces a page of
  the same name, so at most one is shown. The callbacks that the query builder hands to
  \<^verbatim>\<open>components.ConfirmModal\<close> and \<^verbatim>\<open>components.InfoModal\<close> are closures; the model
  names them: a confirmation carries the bulk action that \<^verbatim>\<open>onConfirm\<close> performs after
  closing the modal, an info modal carries what \<^verbatim>\<open>onDismiss\<close> does after closing it.
  The callback of \<^verbatim>\<open>ErrorModal\<close> only closes the modal. Widgets, focus and the table
  cells drawn from \<^verbatim>\<open>matchedStreams\<close> are not modelled.
\<close>

datatype bulk_action = BulkDelete | BulkPurge

datatype dismiss = ShowStreamList_after | SetFocus_form | Close_only

datatype modal =
    ErrorModal string
  | ConfirmModal string bulk_action
  | InfoModal string string dismiss

record 'w UIManager =
  client :: "'w Client"
  readOnly :: bool
  currentPage :: string
  modal :: "modal option"
  queryBuilderView :: QueryBuilderView

definition ShowModal :: "modal \<Rightarrow> 'w UIManager \<Rightarrow> 'w UIManager" where
  "ShowModal m ui = ui\<lparr>modal := Some m\<rparr>"

definition CloseModal :: "'w UIManager \<Rightarrow> 'w UIManager" where
  "CloseModal ui = ui\<lparr>modal := None\<rparr>"

definition ShowError :: "string \<Rightarrow> 'w UIManager \<Rightarrow> 'w UIManager" where
  "ShowError message ui = ShowModal (ErrorModal message) ui"

definition ShowStreamList :: "'w UIManager \<Rightarrow> 'w UIManager" where
  "ShowStreamList ui = ui\<lparr>currentPage := ''streams''\<rparr>"

subsection \<open>Form callbacks\<close>




subsection \<open>previewMatches\<close>

definition previewMatches ::
  "'w JetStream \<Rightarrow> (string \<Rightarrow> string \<Rightarrow> bool option) \<Rightarrow> int \<Rightarrow> 'w UIManager \<Rightarrow> 'w UIManager"
  where
  "previewMatches js rx now ui =
     (case ListStreams js (client ui) of
        (streams, Some err) \<Rightarrow> ShowError (''Failed to list streams: '' @ err) ui
      | (streams, None) \<Rightarrow>
          ui\<lparr>queryBuilderView :=
               (queryBuilderView ui)
                 \<lparr>matchedStreams := filterStreams rx now (queryBuilderView ui) streams\<rparr>\<rparr>)"

subsection \<open>deleteMatched and purgeMatched\<close>

definition streamNames :: "Stream list \<Rightarrow> string list" where
  "streamNames ms =
     map (\<lambda>s. ''  - '' @ Name s) (take 5 ms)
     @ (if length ms > 5 then [''  ... and '' @ itoa (int (length ms) - 5) @ '' more''] else [])"

definition deleteMatched :: "'w UIManager \<Rightarrow> 'w UIManager" where
  "deleteMatched ui =
     (let ms = matchedStreams (queryBuilderView ui) in
      if length ms = 0 then
        ShowError (''No streams matched. Press '' @ [CHR 0x27] @ ''Preview Matches''
                   @ [CHR 0x27] @ '' first.'') ui
      else if readOnly ui then ShowError ''Cannot delete in read-only mode'' ui
      else
        ShowModal
          (ConfirmModal
             (''Delete '' @ itoa (int (length ms)) @ '' streams?'' @ nl @ nl
              @ Join (streamNames ms) nl @ nl @ nl @ ''This action cannot be undone!'')
             BulkDelete) ui)"

definition purgeMatched :: "'w UIManager \<Rightarrow> 'w UIManager" where
  "purgeMatched ui =
     (let ms = matchedStreams (queryBuilderView ui) in
      if length ms = 0 then
        ShowError (''No streams matched. Press '' @ [CHR 0x27] @ ''Preview Matches''
                   @ [CHR 0x27] @ '' first.'') ui
      else if readOnly ui then ShowError ''Cannot purge in read-only mode'' ui
      else
        ShowModal
          (ConfirmModal
             (''Purge all messages from '' @ itoa (int (length ms)) @ '' streams?'' @ nl @ nl
              @ Join (streamNames ms) nl @ nl @ nl
              @ ''Consumers will remain, only messages deleted.'')
             BulkPurge) ui)"

subsection \<open>performBulkDelete and performBulkPurge\<close>

text \<open>
  The loop of both functions: \<open>call\<close> is the client operation, the state is the pair
  of counters \<^verbatim>\<open>successCount\<close>, \<^verbatim>\<open>failCount\<close> and the client.
\<close>

fun bulk_loop ::
  "(string \<Rightarrow> 'c \<Rightarrow> string option \<times> 'c) \<Rightarrow> int \<Rightarrow> int \<Rightarrow> 'c \<Rightarrow> Stream list
     \<Rightarrow> int \<times> int \<times> 'c" where
  "bulk_loop call successCount failCount c [] = (successCount, failCount, c)"
| "bulk_loop call successCount failCount c (stream # streams) =
     (case call (Name stream) c of
        (Some err, c') \<Rightarrow> bulk_loop call successCount (failCount + 1) c' streams
      | (None, c') \<Rightarrow> bulk_loop call (successCount + 1) failCount c' streams)"

definition performBulkDelete :: "'w JetStream \<Rightarrow> 'w UIManager \<Rightarrow> 'w UIManager" where
  "performBulkDelete js ui =
     (case bulk_loop (DeleteStream js) 0 0 (client ui) (matchedStreams (queryBuilderView ui)) of
        (successCount, failCount, c) \<Rightarrow>
          ShowModal
            (InfoModal ''Bulk Delete Result''
               (''Bulk Delete Complete'' @ nl @ nl @ ''Deleted: '' @ itoa successCount
                @ '' streams'' @ nl @ ''Failed: '' @ itoa failCount @ '' streams'')
               ShowStreamList_after)
            (ui\<lparr>client := c\<rparr>))"

definition performBulkPurge ::
  "'w JetStream \<Rightarrow> (string \<Rightarrow> string \<Rightarrow> bool option) \<Rightarrow> int \<Rightarrow> 'w UIManager \<Rightarrow> 'w UIManager"
  where
  "performBulkPurge js rx now ui =
     (case bulk_loop (PurgeStream js) 0 0 (client ui) (matchedStreams (queryBuilderView ui)) of
        (successCount, failCount, c) \<Rightarrow>
          previewMatches js rx now
            (ShowModal
               (InfoModal ''Bulk Purge Result''
                  (''Bulk Purge Complete'' @ nl @ nl @ ''Purged: '' @ itoa successCount
                   @ '' streams'' @ nl @ ''Failed: '' @ itoa failCount @ '' streams'')
                  SetFocus_form)
               (ui\<lparr>client := c\<rparr>)))"

subsection \<open>Modal buttons\<close>

text \<open>
  The \<^verbatim>\<open>SetDoneFunc\<close> handlers of \<^verbatim>\<open>components/modal.go\<close> with the callbacks that
  \<^verbatim>\<open>deleteMatched\<close>, \<^verbatim>\<open>purgeMatched\<close>, \<^verbatim>\<open>performBulkDelete\<close>, \<^verbatim>\<open>performBulkPurge\<close>
  and \<^verbatim>\<open>ShowError\<close> passed in: \<open>press_Yes\<close> and \<open>press_No\<close> are the two buttons of
  a confirmation, \<open>press_OK\<close> the button of an error or info modal. \<open>now\<close> is the
  clock reading when the button is pressed.
\<close>

definition press_Yes ::
  "'w JetStream \<Rightarrow> (string \<Rightarrow> string \<Rightarrow> bool option) \<Rightarrow> int \<Rightarrow> 'w UIManager \<Rightarrow> 'w UIManager"
  where
  "press_Yes js rx now ui =
     (case modal ui of
        Some (ConfirmModal message BulkDelete) \<Rightarrow> performBulkDelete js (CloseModal ui)
      | Some (ConfirmModal message BulkPurge) \<Rightarrow> performBulkPurge js rx now (CloseModal ui)
      | _ \<Rightarrow> ui)"

definition press_No :: "'w UIManager \<Rightarrow> 'w UIManager" where
  "press_No ui =
     (case modal ui of
        Some (ConfirmModal message action) \<Rightarrow> CloseModal ui
      | _ \<Rightarrow> ui)"

definition press_OK :: "'w UIManager \<Rightarrow> 'w UIManager" where
  "press_OK ui =
     (case modal ui of
        Some (ErrorModal message) \<Rightarrow> CloseModal ui
      | Some (InfoModal title message ShowStreamList_after) \<Rightarrow> ShowStreamList (CloseModal ui)
      | Some (InfoModal title message d) \<Rightarrow> CloseModal ui
      | _ \<Rightarrow> ui)"

subsection \<open>sortPreview and sort.Slice\<close>

text \<open>
  The comparison closure that \<^verbatim>\<open>sortPreview\<close> hands to \<^verbatim>\<open>sort.Slice\<close>. It reads the
  two elements of \<^verbatim>\<open>v.matchedStreams\<close>, the slice being sorted; the model gives it the
  two elements. Go compares strings bytewise, \<^verbatim>\<open>Before\<close> compares instants, the message
  count is unsigned. A column outside 0..3 leaves \<^verbatim>\<open>less\<close> at \<^verbatim>\<open>false\<close>.
\<close>

definition less_closure :: "QueryBuilderView \<Rightarrow> Stream \<Rightarrow> Stream \<Rightarrow> bool" where
  "less_closure v a b =
     (let less' =
            (if sortColumn v = 0 then Name a < Name b
             else if sortColumn v = 1 then FirstTime (State a) < FirstTime (State b)
             else if sortColumn v = 2 then Messages (State a) < Messages (State b)
             else if sortColumn v = 3 then Consumers a < Consumers b
             else False)
      in if \<not> sortAscending v then \<not> less' else less')"

text \<open>
  \<^verbatim>\<open>sort.Slice\<close> is library code (Go 1.24, named by the README): it calls
  \<^verbatim>\<open>pdqsort_func\<close>, which on at most 12 elements runs \<^verbatim>\<open>insertionSort_func\<close>:
  \<^verbatim>\<open>for i := a + 1; i < b; i++ { for j := i; j > a && less(j, j-1); j-- { swap(j, j-1) } }\<close>.
  That loop is modelled as it is written, on the list with updates by index. Longer
  slices take the partitioning path of pdqsort, which is not modelled: \<open>sort_Slice\<close>
  answers \<open>None\<close> for them.
\<close>

fun insertion_inner :: "('a \<Rightarrow> 'a \<Rightarrow> bool) \<Rightarrow> 'a list \<Rightarrow> nat \<Rightarrow> 'a list" where
  "insertion_inner lt data 0 = data"
| "insertion_inner lt data (Suc j) =
     (if lt (data ! Suc j) (data ! j)
      then insertion_inner lt (data[Suc j := data ! j, j := data ! Suc j]) j
      else data)"

definition insertionSort_func :: "('a \<Rightarrow> 'a \<Rightarrow> bool) \<Rightarrow> 'a list \<Rightarrow> 'a list" where
  "insertionSort_func lt data = foldl (insertion_inner lt) data [1..<length data]"

definition sort_Slice :: "('a \<Rightarrow> 'a \<Rightarrow> bool) \<Rightarrow> 'a list \<Rightarrow> 'a list option" where
  "sort_Slice lt x = (if length x \<le> 12 then Some (insertionSort_func lt x) else None)"

definition sortPreview :: "QueryBuilderView \<Rightarrow> QueryBuilderView option" where
  "sortPreview v =
     (if length (matchedStreams v) = 0 then Some v
      else map_option (\<lambda>ms. v\<lparr>matchedStreams := ms\<rparr>)
             (sort_Slice (less_closure v) (matchedStreams v)))"

text \<open>The \<^verbatim>\<open>SetSelectedFunc\<close> handler of the preview table (header click).\<close>

definition header_selected :: "int \<Rightarrow> int \<Rightarrow> QueryBuilderView \<Rightarrow> QueryBuilderView option" where
  "header_selected row column v =
     (if row = 0 then
        sortPreview
          (if sortColumn v = column then v\<lparr>sortAscending := \<not> sortAscending v\<rparr>
           else v\<lparr>sortColumn := column, sortAscending := True\<rparr>)
      else Some v)"




subsection \<open>Saved filters\<close>

record SavedFilter =
  FilterName :: string
  NamePattern :: string
  AgeOp :: string
  AgeValue :: int
  AgeUnit :: string
  ConsumerOp :: string
  ConsumerValue :: int
  MessagesOp :: string
  MessagesValue :: int

record FilterConfig =
  Filters :: "SavedFilter list"

text \<open>
  \<open>FilterName\<close> is the field \<^verbatim>\<open>Name\<close> of \<^verbatim>\<open>models.SavedFilter\<close> (the name
  \<open>Name\<close> is taken by \<^verbatim>\<open>models.Stream\<close>).

  \<^verbatim>\<open>saveFilterToFile\<close> works on the file
  \<^verbatim>\<open>~/.config/n2s/filters.yaml\<close> through \<^verbatim>\<open>os\<close>, \<^verbatim>\<open>filepath\<close> and \<^verbatim>\<open>yaml.v3\<close>. These
  are parameters of the model, collected in the record \<open>Platform\<close>; \<open>'d\<close> is the
  type of file contents. The state is the map from paths to the contents of the readable
  files. \<open>WriteFile p path data = None\<close> is a write that succeeds, \<open>Some (err, left)\<close>
  one that fails and leaves \<open>left\<close> at the path. \<open>yaml_Unmarshal p data\<close> is the
  configuration decoded into a zero \<^verbatim>\<open>FilterConfig\<close> and the error.
\<close>

record 'd Platform =
  UserHomeDir :: "string + string"
  filepath_Join :: "string list \<Rightarrow> string"
  filepath_Dir :: "string \<Rightarrow> string"
  MkdirAll :: "string \<Rightarrow> string option"
  WriteFile :: "string \<Rightarrow> 'd \<Rightarrow> (string \<times> 'd option) option"
  yaml_Unmarshal :: "'d \<Rightarrow> FilterConfig \<times> string option"
  yaml_Marshal :: "FilterConfig \<Rightarrow> string + 'd"

text \<open>The duplicate check: the loop returns at the first filter of the same name.\<close>

fun name_exists :: "SavedFilter list \<Rightarrow> SavedFilter \<Rightarrow> bool" where
  "name_exists [] filter' = False"
| "name_exists (f # fs) filter' = (if FilterName f = FilterName filter' then True
                                 else name_exists fs filter')"

definition stored_config :: "'d Platform \<Rightarrow> (string \<rightharpoonup> 'd) \<Rightarrow> string \<Rightarrow> FilterConfig" where
  "stored_config p files filterPath =
     (case files filterPath of
        Some data \<Rightarrow> fst (yaml_Unmarshal p data)
      | None \<Rightarrow> \<lparr>Filters = []\<rparr>)"

definition saveFilterToFile ::
  "'d Platform \<Rightarrow> SavedFilter \<Rightarrow> (string \<rightharpoonup> 'd) \<Rightarrow> string option \<times> (string \<rightharpoonup> 'd)" where
  "saveFilterToFile p filter' files =
     (case UserHomeDir p of
        Inl err \<Rightarrow> (Some (''failed to get home directory: '' @ err), files)
      | Inr homeDir \<Rightarrow>
          (let filterPath = filepath_Join p [homeDir, ''.config'', ''n2s'', ''filters.yaml''] in
           case MkdirAll p (filepath_Dir p filterPath) of
             Some err \<Rightarrow> (Some (''failed to create config directory: '' @ err), files)
           | None \<Rightarrow>
               (let config = stored_config p files filterPath in
                if name_exists (Filters config) filter' then
                  (Some (''filter '' @ [CHR 0x27] @ FilterName filter' @ [CHR 0x27]
                         @ '' already exists''), files)
                else
                  (case yaml_Marshal p (config\<lparr>Filters := Filters config @ [filter']\<rparr>) of
                     Inl err \<Rightarrow> (Some (''failed to marshal filters: '' @ err), files)
                   | Inr data \<Rightarrow>
                       (case WriteFile p filterPath data of
                          Some (err, left) \<Rightarrow>
                            (Some (''failed to write filters file: '' @ err),
                             files(filterPath := left))
                        | None \<Rightarrow> (None, files(filterPath \<mapsto> data)))))))"

subsection \<open>Concrete inputs\<close>

text \<open>
  Streams, views and a server used at the concrete statements. \<open>mem_js\<close> is a
  JetStream context over a list of streams: deleting removes the stream of that name,
  purging sets its message count to 0, and both fail for a name that is not there.
\<close>

definition stream_of :: "string \<Rightarrow> int \<Rightarrow> 64 word \<Rightarrow> int \<Rightarrow> Stream" where
  "stream_of name consumers msgs first =
     \<lparr>Name = name, Consumers = consumers, State = \<lparr>Messages = msgs, FirstTime = first\<rparr>\<rparr>"

fun has_stream :: "string \<Rightarrow> Stream list \<Rightarrow> bool" where
  "has_stream name [] = False"
| "has_stream name (s # ss) = (if Name s = name then True else has_stream name ss)"

definition mem_js :: "Stream list JetStream" where
  "mem_js =
     \<lparr>js_StreamsInfo = (\<lambda>w. w),
      js_DeleteStream = (\<lambda>name w.
        if has_stream name w then (None, filter (\<lambda>s. Name s \<noteq> name) w)
        else (Some ''stream not found'', w)),
      js_PurgeStream = (\<lambda>name w.
        if has_stream name w
        then (None, map (\<lambda>s. if Name s = name
                                then s\<lparr>State := (State s)\<lparr>Messages := 0\<rparr>\<rparr> else s) w)
        else (Some ''stream not found'', w))\<rparr>"

definition ex_orders :: Stream where
  "ex_orders = stream_of ''orders'' 0 150 0"

definition ex_events :: Stream where
  "ex_events = stream_of ''events'' 0 300 0"

definition ex_audit :: Stream where
  "ex_audit = stream_of ''audit'' 2 50 0"

definition ex_bad_age :: QueryBuilderView where
  "ex_bad_age =
     NewQueryBuilderView\<lparr>ageOp := ''>'', ageValue := ''-'',
                         consumerOp := ''='', consumerValue := ''5''\<rparr>"

definition ex_empty_values :: QueryBuilderView where
  "ex_empty_values =
     NewQueryBuilderView\<lparr>namePattern := ''or*'', ageOp := ''>'', consumerOp := ''='',
                         messagesOp := ''<''\<rparr>"

definition ex_older_than_1h :: QueryBuilderView where
  "ex_older_than_1h = NewQueryBuilderView\<lparr>ageOp := ''>'', ageValue := ''1''\<rparr>"

subsection \<open>Observations on the state\<close>

text \<open>
  What the user sees of a request: \<open>rejected\<close> when an error modal is shown,
  \<open>confirming\<close> the bulk action of the confirmation shown, if any. \<open>outcomes\<close> is
  the list of errors that a sequence of client calls returns when they are issued one after
  the other, and \<open>after_calls\<close> the client they leave.
\<close>

definition rejected :: "'w UIManager \<Rightarrow> bool" where
  "rejected ui = (case modal ui of Some (ErrorModal message) \<Rightarrow> True | _ \<Rightarrow> False)"


fun outcomes :: "(string \<Rightarrow> 'c \<Rightarrow> string option \<times> 'c) \<Rightarrow> 'c \<Rightarrow> string list \<Rightarrow> string option list"
  where
  "outcomes call c [] = []"
| "outcomes call c (name # names) = fst (call name c) # outcomes call (snd (call name c)) names"

fun after_calls :: "(string \<Rightarrow> 'c \<Rightarrow> string option \<times> 'c) \<Rightarrow> 'c \<Rightarrow> string list \<Rightarrow> 'c" where
  "after_calls call c [] = c"
| "after_calls call c (name # names) = after_calls call (snd (call name c)) names"

definition succeeded :: "string option list \<Rightarrow> int" where
  "succeeded errs = int (length (filter (\<lambda>e. e = None) errs))"

definition failed :: "string option list \<Rightarrow> int" where
  "failed errs = int (length (filter (\<lambda>e. e \<noteq> None) errs))"

definition ex_ui :: "Stream list UIManager" where
  "ex_ui =
     \<lparr>client = \<lparr>server = [ex_orders, ex_events, ex_audit], sent = []\<rparr>,
      readOnly = False, currentPage = ''query-builder'', modal = None,
      queryBuilderView = NewQueryBuilderView\<rparr>"

definition ex_previewed :: "Stream list UIManager" where
  "ex_previewed = previewMatches mem_js MatchString 0 ex_ui"

definition ex_gone :: "Stream list UIManager" where
  "ex_gone = ex_previewed\<lparr>client := \<lparr>server = [ex_orders, ex_audit], sent = []\<rparr>\<rparr>"

definition ex_platform :: "FilterConfig Platform" where
  "ex_platform =
     \<lparr>UserHomeDir = Inr ''/home/op'',
      filepath_Join = (\<lambda>elems. Join elems ''/''),
      filepath_Dir = (\<lambda>path. path),
      MkdirAll = (\<lambda>path. None),
      WriteFile = (\<lambda>path data. None),
      yaml_Unmarshal = (\<lambda>data. (data, None)),
      yaml_Marshal = (\<lambda>config. Inr config)\<rparr>"

definition ex_filter :: SavedFilter where
  "ex_filter =
     \<lparr>FilterName = ''old orders'', NamePattern = ''order-*'', AgeOp = ''>'', AgeValue = 24,
      AgeUnit = ''h'', ConsumerOp = ''any'', ConsumerValue = 0, MessagesOp = ''any'',
      MessagesValue = 0\<rparr>"

definition ex_filters_yaml :: string where
  "ex_filters_yaml = ''/home/op/.config/n2s/filters.yaml''"

definition ex_files :: "string \<rightharpoonup> FilterConfig" where
  "ex_files = Map.empty(ex_filters_yaml \<mapsto> \<lparr>Filters = [ex_filter]\<rparr>)"





section \<open>Properties of the filter evaluator\<close>

lemmas scan_defs =
  Sscanf_d_def scanInt_def ParseInt_def ParseUint_def isSpace_def decimalDigits_def digit_val_def

lemmas rx_defs = MatchString_def parse_atom_def re_meta_def ReplaceAll_def

lemmas match_defs =
  matchesFilter_def matchesFilter_age_def matchesFilter_consumer_def matchesFilter_messages_def
  compareAge_def compareInt_def compareInt64_def

lemmas ex_stream_defs = ex_orders_def ex_events_def ex_audit_def stream_of_def

lemma filterStreams_loop_filter:
  "filterStreams_loop rx now v matched streams = matched @ filter (matchesFilter rx now v) streams"
  by (induction streams arbitrary: matched) simp_all

lemma filterStreams_filter:
  "filterStreams rx now v streams = filter (matchesFilter rx now v) streams"
  by (simp add: filterStreams_def filterStreams_loop_filter)

lemma messages_skip:
  "messagesValue v = '''' \<Longrightarrow> matchesFilter_messages (v\<lparr>messagesOp := x\<rparr>) t = True"
  "messagesValue v = '''' \<Longrightarrow> matchesFilter_messages v t = True"
  by (simp_all add: matchesFilter_messages_def split: option.split)

lemma messages_other_op:
  "matchesFilter_messages (v\<lparr>ageOp := x\<rparr>) t = matchesFilter_messages v t"
  "matchesFilter_messages (v\<lparr>consumerOp := x\<rparr>) t = matchesFilter_messages v t"
  by (simp_all add: matchesFilter_messages_def split: option.split)

lemma consumer_skip:
  "consumerValue v = '''' \<Longrightarrow>
     matchesFilter_consumer (v\<lparr>consumerOp := x\<rparr>) t = matchesFilter_messages v t"
  "consumerValue v = '''' \<Longrightarrow> matchesFilter_consumer v t = matchesFilter_messages v t"
  by (simp_all add: matchesFilter_consumer_def messages_other_op split: option.split)

lemma consumer_other_op:
  "matchesFilter_consumer (v\<lparr>ageOp := x\<rparr>) t = matchesFilter_consumer v t"
  by (simp add: matchesFilter_consumer_def messages_other_op split: option.split)

lemma consumer_messages_skip:
  "messagesValue v = '''' \<Longrightarrow>
     matchesFilter_consumer (v\<lparr>messagesOp := x\<rparr>) t = matchesFilter_consumer v t"
  by (simp add: matchesFilter_consumer_def messages_skip split: option.split)

lemma age_skip:
  "ageValue v = '''' \<Longrightarrow>
     matchesFilter_age now (v\<lparr>ageOp := x\<rparr>) t = matchesFilter_consumer v t"
  "ageValue v = '''' \<Longrightarrow> matchesFilter_age now v t = matchesFilter_consumer v t"
  by (simp_all add: matchesFilter_age_def consumer_other_op split: option.split)

lemma age_consumer_skip:
  "consumerValue v = '''' \<Longrightarrow>
     matchesFilter_age now (v\<lparr>consumerOp := x\<rparr>) t = matchesFilter_age now v t"
  by (simp add: matchesFilter_age_def consumer_skip messages_other_op Let_def
      split: option.split)

lemma age_messages_skip:
  "messagesValue v = '''' \<Longrightarrow>
     matchesFilter_age now (v\<lparr>messagesOp := x\<rparr>) t = matchesFilter_age now v t"
  by (simp add: matchesFilter_age_def consumer_messages_skip Let_def split: option.split)

lemma age_clause_off:
  "ageOp v = ''any'' \<or> ageValue v = '''' \<Longrightarrow>
     matchesFilter_age now v t = matchesFilter_consumer v t"
  by (auto simp add: matchesFilter_age_def)

lemma all_any_matches:
  "namePattern v = ''*'' \<Longrightarrow> ageOp v = ''any'' \<Longrightarrow> consumerOp v = ''any'' \<Longrightarrow>
     messagesOp v = ''any'' \<Longrightarrow> matchesFilter rx now v t"
  by (simp add: matchesFilter_def matchesFilter_age_def matchesFilter_consumer_def
      matchesFilter_messages_def)

text \<open>
  C10. A clause whose comparator is not \<^verbatim>\<open>any\<close> but whose value string is empty is
  skipped: for each of the three numeric clauses, with the value empty
  \<^verbatim>\<open>matchesFilter\<close> answers on every stream what it answers with the comparator set to
  \<^verbatim>\<open>any\<close>, and \<^verbatim>\<open>filterStreams\<close> returns the same matched set, so the remaining
  clauses alone decide.
\<close>

theorem empty_value_skips_clause:
  "(ageValue v = '''' \<longrightarrow>
      matchesFilter rx now v s = matchesFilter rx now (v\<lparr>ageOp := ''any''\<rparr>) s \<and>
      filterStreams rx now v snap = filterStreams rx now (v\<lparr>ageOp := ''any''\<rparr>) snap) \<and>
   (consumerValue v = '''' \<longrightarrow>
      matchesFilter rx now v s = matchesFilter rx now (v\<lparr>consumerOp := ''any''\<rparr>) s \<and>
      filterStreams rx now v snap = filterStreams rx now (v\<lparr>consumerOp := ''any''\<rparr>) snap) \<and>
   (messagesValue v = '''' \<longrightarrow>
      matchesFilter rx now v s = matchesFilter rx now (v\<lparr>messagesOp := ''any''\<rparr>) s \<and>
      filterStreams rx now v snap = filterStreams rx now (v\<lparr>messagesOp := ''any''\<rparr>) snap)"
proof -
  have a: "matchesFilter rx now v t = matchesFilter rx now (v\<lparr>ageOp := ''any''\<rparr>) t"
    if "ageValue v = ''''" for t
    using that by (simp add: matchesFilter_def age_skip consumer_other_op split: option.split)
  have c: "matchesFilter rx now v t = matchesFilter rx now (v\<lparr>consumerOp := ''any''\<rparr>) t"
    if "consumerValue v = ''''" for t
    using that by (simp add: matchesFilter_def age_consumer_skip split: option.split)
  have m: "matchesFilter rx now v t = matchesFilter rx now (v\<lparr>messagesOp := ''any''\<rparr>) t"
    if "messagesValue v = ''''" for t
    using that by (simp add: matchesFilter_def age_messages_skip split: option.split)
  have fa: "filterStreams rx now v snap = filterStreams rx now (v\<lparr>ageOp := ''any''\<rparr>) snap"
    if "ageValue v = ''''"
    using a [OF that] by (simp add: filterStreams_filter cong: filter_cong)
  have fc:
    "filterStreams rx now v snap = filterStreams rx now (v\<lparr>consumerOp := ''any''\<rparr>) snap"
    if "consumerValue v = ''''"
    using c [OF that] by (simp add: filterStreams_filter cong: filter_cong)
  have fm:
    "filterStreams rx now v snap = filterStreams rx now (v\<lparr>messagesOp := ''any''\<rparr>) snap"
    if "messagesValue v = ''''"
    using m [OF that] by (simp add: filterStreams_filter cong: filter_cong)
  show ?thesis
    using a c m fa fc fm by blast
qed

theorem empty_value_skips_clause_witness:
  "ageValue ex_empty_values = '''' \<and> consumerValue ex_empty_values = ''''
   \<and> messagesValue ex_empty_values = ''''
   \<and> matchesFilter MatchString 0 (ex_empty_values\<lparr>ageOp := ''any''\<rparr>) ex_orders
   \<and> matchesFilter MatchString 0 (ex_empty_values\<lparr>consumerOp := ''any''\<rparr>) ex_orders
   \<and> matchesFilter MatchString 0 (ex_empty_values\<lparr>messagesOp := ''any''\<rparr>) ex_orders
   \<and> filterStreams MatchString 0 (ex_empty_values\<lparr>ageOp := ''any''\<rparr>) [ex_orders, ex_audit]
       = [ex_orders]
   \<and> filterStreams MatchString 0 (ex_empty_values\<lparr>consumerOp := ''any''\<rparr>) [ex_orders, ex_audit]
       = [ex_orders]
   \<and> filterStreams MatchString 0 (ex_empty_values\<lparr>messagesOp := ''any''\<rparr>) [ex_orders, ex_audit]
       = [ex_orders]"
proof -
  have e: "ageValue ex_empty_values = ''''" "consumerValue ex_empty_values = ''''"
    "messagesValue ex_empty_values = ''''"
    by (simp_all add: ex_empty_values_def NewQueryBuilderView_def)
  have o: "matchesFilter MatchString 0 ex_empty_values ex_orders"
    by (simp add: match_defs rx_defs ex_empty_values_def ex_stream_defs NewQueryBuilderView_def)
  have a: "\<not> matchesFilter MatchString 0 ex_empty_values ex_audit"
    by (simp add: match_defs rx_defs ex_empty_values_def ex_stream_defs NewQueryBuilderView_def)
  have f: "filterStreams MatchString 0 ex_empty_values [ex_orders, ex_audit] = [ex_orders]"
    using o a by (simp add: filterStreams_def)
  show ?thesis
    using empty_value_skips_clause
            [of ex_empty_values MatchString 0 ex_orders "[ex_orders, ex_audit]"] e o f
    by metis
qed

text \<open>
  C1. A value string that is not empty and does not parse makes \<^verbatim>\<open>matchesFilter\<close>
  return \<^verbatim>\<open>true\<close> at once, so the clauses after it are not applied. With the age value
  \<^verbatim>\<open>-\<close> (which the integer input field accepts) and the consumer clause \<^verbatim>\<open>= 5\<close>, the
  stream \<open>ex_audit\<close> with 2 consumers is matched, although the consumer clause alone
  (age comparator \<^verbatim>\<open>any\<close>) rejects it.
\<close>

theorem unparseable_value_skips_later_clauses:
  "Sscanf_d (ageValue ex_bad_age) = None
   \<and> matchesFilter MatchString 0 ex_bad_age ex_audit = True
   \<and> matchesFilter MatchString 0 (ex_bad_age\<lparr>ageOp := ''any''\<rparr>) ex_audit = False"
  by (simp add: match_defs scan_defs ex_bad_age_def ex_stream_defs NewQueryBuilderView_def)

text \<open>
  C8, as stated: two evaluations of the same predicate on the same snapshot return the same
  matched set. The age clause reads the clock: the predicate "older than 1 hour" on a
  snapshot holding one stream whose first message is at instant 0 gives the empty set
  59 minutes after that instant and the stream itself 61 minutes after it.
\<close>

theorem filterStreams_clock_counterexample:
  "filterStreams MatchString 3540000000000 ex_older_than_1h [ex_orders]
   \<noteq> filterStreams MatchString 3660000000000 ex_older_than_1h [ex_orders]"
  by (simp add: filterStreams_def match_defs scan_defs ex_older_than_1h_def ex_stream_defs
      NewQueryBuilderView_def Since_def int64_def Hour_def Minute_def)

text \<open>
  C8, amended. \<^verbatim>\<open>filterStreams\<close> is a function of the predicate, the snapshot and the
  clock reading, with no other effect: the matched set is the snapshot filtered by
  \<^verbatim>\<open>matchesFilter\<close>, hence an order-preserving subsequence of the snapshot that holds
  exactly the matching entities; when the age clause is \<^verbatim>\<open>any\<close> or its value is empty
  the clock reading does not matter; and when the name pattern is \<^verbatim>\<open>*\<close> and every
  comparator is \<^verbatim>\<open>any\<close> the matched set is the full snapshot in snapshot order.
\<close>

theorem filterStreams_subsequence:
  "filterStreams rx now v snap = filter (matchesFilter rx now v) snap
   \<and> subseq (filterStreams rx now v snap) snap
   \<and> set (filterStreams rx now v snap) = {s \<in> set snap. matchesFilter rx now v s}
   \<and> (ageOp v = ''any'' \<or> ageValue v = '''' \<longrightarrow>
        filterStreams rx now v snap = filterStreams rx now' v snap)
   \<and> (namePattern v = ''*'' \<and> ageOp v = ''any'' \<and> consumerOp v = ''any''
        \<and> messagesOp v = ''any'' \<longrightarrow> filterStreams rx now v snap = snap)"
proof -
  have clock: "matchesFilter rx now v t = matchesFilter rx now' v t"
    if "ageOp v = ''any'' \<or> ageValue v = ''''" for t
    by (simp add: matchesFilter_def age_clause_off [OF that] split: option.split)
  have "filterStreams rx now v snap = filterStreams rx now' v snap"
    if "ageOp v = ''any'' \<or> ageValue v = ''''"
    using clock [OF that] by (simp add: filterStreams_filter cong: filter_cong)
  moreover have "filterStreams rx now v snap = snap"
    if "namePattern v = ''*'' \<and> ageOp v = ''any'' \<and> consumerOp v = ''any''
        \<and> messagesOp v = ''any''"
    using that by (simp add: filterStreams_filter all_any_matches)
  ultimately show ?thesis
    by (auto simp add: filterStreams_filter)
qed

theorem filterStreams_subsequence_witness:
  "(ageOp NewQueryBuilderView = ''any'' \<or> ageValue NewQueryBuilderView = '''')
   \<and> namePattern NewQueryBuilderView = ''*'' \<and> ageOp NewQueryBuilderView = ''any''
   \<and> consumerOp NewQueryBuilderView = ''any'' \<and> messagesOp NewQueryBuilderView = ''any''
   \<and> filterStreams MatchString 0 NewQueryBuilderView [ex_orders, ex_audit]
       = [ex_orders, ex_audit]
   \<and> filterStreams MatchString 0 NewQueryBuilderView [ex_orders, ex_audit]
       = filterStreams MatchString 3660000000000 NewQueryBuilderView [ex_orders, ex_audit]"
proof -
  have h: "ageOp NewQueryBuilderView = ''any''" "namePattern NewQueryBuilderView = ''*''"
    "consumerOp NewQueryBuilderView = ''any''" "messagesOp NewQueryBuilderView = ''any''"
    by (simp_all add: NewQueryBuilderView_def)
  show ?thesis
    using filterStreams_subsequence
            [of MatchString 0 NewQueryBuilderView "[ex_orders, ex_audit]" 3660000000000] h
    by metis
qed

section \<open>Properties of the controller\<close>

lemmas ui_defs = ShowModal_def ShowError_def CloseModal_def ShowStreamList_def

lemma bulk_loop_counts:
  "bulk_loop call s f c ms =
     (s + succeeded (outcomes call c (map Name ms)),
      f + failed (outcomes call c (map Name ms)),
      after_calls call c (map Name ms))"
  by (induction ms arbitrary: s f c)
     (auto simp add: succeeded_def failed_def split: prod.splits option.splits)

lemma succeeded_failed_length: "succeeded errs + failed errs = int (length errs)"
  by (induction errs) (auto simp add: succeeded_def failed_def)

lemma length_outcomes: "length (outcomes call c names) = length names"
  by (induction names arbitrary: c) simp_all

lemma sent_after_Delete:
  "sent (after_calls (DeleteStream js) c names) = sent c @ map Delete names"
  by (induction names arbitrary: c) (simp_all add: DeleteStream_def split: prod.splits)

lemma sent_after_Purge:
  "sent (after_calls (PurgeStream js) c names) = sent c @ map Purge names"
  by (induction names arbitrary: c) (simp_all add: PurgeStream_def split: prod.splits)

lemma previewMatches_eq:
  "previewMatches js rx now ui =
     ui\<lparr>queryBuilderView :=
          (queryBuilderView ui)
            \<lparr>matchedStreams :=
               filterStreams rx now (queryBuilderView ui) (js_StreamsInfo js (server (client ui)))\<rparr>\<rparr>"
  by (simp add: previewMatches_def ListStreams_def)

text \<open>
  C3. When the matched set is empty, or the read-only flag is set (whatever the matched
  set holds), \<^verbatim>\<open>deleteMatched\<close> and \<^verbatim>\<open>purgeMatched\<close> only show an error modal: the
  state after the request is the state before it with that modal, so the client (server
  state and trace of delete and purge requests), the predicate, the matched set and the
  page are unchanged and no external call is made.
\<close>

theorem bulk_request_rejected:
  "matchedStreams (queryBuilderView ui) = [] \<or> readOnly ui \<Longrightarrow>
     (\<exists>message. deleteMatched ui = ui\<lparr>modal := Some (ErrorModal message)\<rparr>)
     \<and> (\<exists>message. purgeMatched ui = ui\<lparr>modal := Some (ErrorModal message)\<rparr>)
     \<and> rejected (deleteMatched ui) \<and> rejected (purgeMatched ui)
     \<and> client (deleteMatched ui) = client ui \<and> client (purgeMatched ui) = client ui
     \<and> queryBuilderView (deleteMatched ui) = queryBuilderView ui
     \<and> queryBuilderView (purgeMatched ui) = queryBuilderView ui"
  by (auto simp add: deleteMatched_def purgeMatched_def ui_defs rejected_def Let_def)

theorem bulk_request_rejected_witness:
  "(matchedStreams (queryBuilderView ex_ui) = [] \<or> readOnly ex_ui)
   \<and> (matchedStreams (queryBuilderView (ex_previewed\<lparr>readOnly := True\<rparr>)) = []
       \<or> readOnly (ex_previewed\<lparr>readOnly := True\<rparr>))
   \<and> rejected (deleteMatched ex_ui) \<and> rejected (purgeMatched ex_ui)
   \<and> sent (client (deleteMatched ex_ui)) = []
   \<and> rejected (deleteMatched (ex_previewed\<lparr>readOnly := True\<rparr>))
   \<and> rejected (purgeMatched (ex_previewed\<lparr>readOnly := True\<rparr>))
   \<and> sent (client (purgeMatched (ex_previewed\<lparr>readOnly := True\<rparr>))) = []"
proof -
  have a: "matchedStreams (queryBuilderView ex_ui) = [] \<or> readOnly ex_ui"
    by (simp add: ex_ui_def NewQueryBuilderView_def)
  have b: "matchedStreams (queryBuilderView (ex_previewed\<lparr>readOnly := True\<rparr>)) = []
       \<or> readOnly (ex_previewed\<lparr>readOnly := True\<rparr>)"
    by simp
  have s: "sent (client ex_ui) = []" "sent (client (ex_previewed\<lparr>readOnly := True\<rparr>)) = []"
    by (simp_all add: ex_ui_def ex_previewed_def previewMatches_eq)
  show ?thesis
    using bulk_request_rejected [OF a] bulk_request_rejected [OF b] a b s by metis
qed

lemma ex_previewed_matched:
  "matchedStreams (queryBuilderView ex_previewed) = [ex_orders, ex_events, ex_audit]"
  by (simp add: ex_previewed_def previewMatches_eq ex_ui_def mem_js_def filterStreams_def
      matchesFilter_def matchesFilter_age_def matchesFilter_consumer_def matchesFilter_messages_def
       NewQueryBuilderView_def)


lemma sent_DeleteStream: "sent (snd (DeleteStream js n c)) = sent c @ [Delete n]"
  by (simp add: DeleteStream_def split: prod.splits)





lemma performBulkDelete_eq:
  "performBulkDelete js ui =
     ui\<lparr>client := after_calls (DeleteStream js) (client ui)
                    (map Name (matchedStreams (queryBuilderView ui))),
        modal := Some (InfoModal ''Bulk Delete Result''
          (''Bulk Delete Complete'' @ nl @ nl @ ''Deleted: ''
           @ itoa (succeeded (outcomes (DeleteStream js) (client ui)
                                (map Name (matchedStreams (queryBuilderView ui)))))
           @ '' streams'' @ nl @ ''Failed: ''
           @ itoa (failed (outcomes (DeleteStream js) (client ui)
                             (map Name (matchedStreams (queryBuilderView ui)))))
           @ '' streams'')
          ShowStreamList_after)\<rparr>"
    by (simp add: performBulkDelete_def bulk_loop_counts ui_defs)

lemma performBulkPurge_eq:
  "performBulkPurge js rx now ui =
     (ui\<lparr>client := after_calls (PurgeStream js) (client ui)
                    (map Name (matchedStreams (queryBuilderView ui))),
        modal := Some (InfoModal ''Bulk Purge Result''
          (''Bulk Purge Complete'' @ nl @ nl @ ''Purged: ''
           @ itoa (succeeded (outcomes (PurgeStream js) (client ui)
                                (map Name (matchedStreams (queryBuilderView ui)))))
           @ '' streams'' @ nl @ ''Failed: ''
           @ itoa (failed (outcomes (PurgeStream js) (client ui)
                             (map Name (matchedStreams (queryBuilderView ui)))))
           @ '' streams'')
          SetFocus_form),
        queryBuilderView := (queryBuilderView ui)\<lparr>matchedStreams :=
           filterStreams rx now (queryBuilderView ui)
             (js_StreamsInfo js (server (after_calls (PurgeStream js) (client ui)
                    (map Name (matchedStreams (queryBuilderView ui))))))\<rparr>\<rparr>)"
    by (simp add: performBulkPurge_def bulk_loop_counts ui_defs previewMatches_eq)

text \<open>
  C5. \<^verbatim>\<open>performBulkDelete\<close> and \<^verbatim>\<open>performBulkPurge\<close> call the client once for every
  stream of the matched set, in its order, whatever the calls return: the trace of
  requests grows by the delete (purge) requests for the names of the matched set in order,
  the client is the one those calls leave, and the report shows as succeeded the number of
  calls that returned no error and as failed the number that returned one; the two add up
  to the size of the matched set. In particular, for a matched set of three streams of
  which the second no longer exists on the server, the second call fails, the first and
  third succeed, and the report reads 2 deleted, 1 failed.
\<close>

theorem bulk_executor_tally:
  "performBulkDelete js ui =
     ui\<lparr>client := after_calls (DeleteStream js) (client ui)
                    (map Name (matchedStreams (queryBuilderView ui))),
        modal := Some (InfoModal ''Bulk Delete Result''
          (''Bulk Delete Complete'' @ nl @ nl @ ''Deleted: ''
           @ itoa (succeeded (outcomes (DeleteStream js) (client ui)
                                (map Name (matchedStreams (queryBuilderView ui)))))
           @ '' streams'' @ nl @ ''Failed: ''
           @ itoa (failed (outcomes (DeleteStream js) (client ui)
                             (map Name (matchedStreams (queryBuilderView ui)))))
           @ '' streams'')
          ShowStreamList_after)\<rparr>
   \<and> sent (client (performBulkDelete js ui))
       = sent (client ui) @ map Delete (map Name (matchedStreams (queryBuilderView ui)))
   \<and> succeeded (outcomes (DeleteStream js) (client ui)
                  (map Name (matchedStreams (queryBuilderView ui))))
     + failed (outcomes (DeleteStream js) (client ui)
                  (map Name (matchedStreams (queryBuilderView ui))))
     = int (length (matchedStreams (queryBuilderView ui)))
   \<and> modal (performBulkPurge js rx now ui) =
       Some (InfoModal ''Bulk Purge Result''
          (''Bulk Purge Complete'' @ nl @ nl @ ''Purged: ''
           @ itoa (succeeded (outcomes (PurgeStream js) (client ui)
                                (map Name (matchedStreams (queryBuilderView ui)))))
           @ '' streams'' @ nl @ ''Failed: ''
           @ itoa (failed (outcomes (PurgeStream js) (client ui)
                             (map Name (matchedStreams (queryBuilderView ui)))))
           @ '' streams'')
          SetFocus_form)
   \<and> client (performBulkPurge js rx now ui)
       = after_calls (PurgeStream js) (client ui) (map Name (matchedStreams (queryBuilderView ui)))
   \<and> sent (client (performBulkPurge js rx now ui))
       = sent (client ui) @ map Purge (map Name (matchedStreams (queryBuilderView ui)))
   \<and> succeeded (outcomes (PurgeStream js) (client ui)
                  (map Name (matchedStreams (queryBuilderView ui))))
     + failed (outcomes (PurgeStream js) (client ui)
                  (map Name (matchedStreams (queryBuilderView ui))))
     = int (length (matchedStreams (queryBuilderView ui)))
   \<and> outcomes (DeleteStream mem_js) (client ex_gone)
        (map Name (matchedStreams (queryBuilderView ex_gone)))
       = [None, Some ''failed to delete stream: stream not found'', None]
   \<and> modal (performBulkDelete mem_js ex_gone) =
       Some (InfoModal ''Bulk Delete Result''
          (''Bulk Delete Complete'' @ nl @ nl @ ''Deleted: 2 streams'' @ nl
           @ ''Failed: 1 streams'') ShowStreamList_after)
   \<and> sent (client (performBulkDelete mem_js ex_gone))
       = [Delete ''orders'', Delete ''events'', Delete ''audit'']
   \<and> server (client (performBulkDelete mem_js ex_gone)) = []"
proof -
  have g: "matchedStreams (queryBuilderView ex_gone) = [ex_orders, ex_events, ex_audit]"
    "client ex_gone = \<lparr>server = [ex_orders, ex_audit], sent = []\<rparr>"
    by (simp_all add: ex_gone_def ex_previewed_matched)
  have o: "outcomes (DeleteStream mem_js) (client ex_gone)
        (map Name (matchedStreams (queryBuilderView ex_gone)))
       = [None, Some ''failed to delete stream: stream not found'', None]"
    by (simp add: g DeleteStream_def mem_js_def ex_orders_def ex_events_def ex_audit_def
        stream_of_def)
  have a: "server (after_calls (DeleteStream mem_js) (client ex_gone)
        (map Name (matchedStreams (queryBuilderView ex_gone)))) = []"
    by (simp add: g DeleteStream_def mem_js_def ex_orders_def ex_events_def ex_audit_def
        stream_of_def)
  have n: "itoa 2 = ''2''" "itoa 1 = ''1''"
    by code_simp+
  have d3: "modal (performBulkDelete mem_js ex_gone) =
       Some (InfoModal ''Bulk Delete Result''
          (''Bulk Delete Complete'' @ nl @ nl @ ''Deleted: 2 streams'' @ nl
           @ ''Failed: 1 streams'') ShowStreamList_after)"
    by (simp add: performBulkDelete_eq o succeeded_def failed_def n)
  show ?thesis
    apply (intro conjI)
    subgoal by (rule performBulkDelete_eq)
    subgoal by (simp add: performBulkDelete_eq sent_after_Delete)
    subgoal by (simp add: succeeded_failed_length length_outcomes)
    subgoal by (simp add: performBulkPurge_eq)
    subgoal by (simp add: performBulkPurge_eq)
    subgoal by (simp add: performBulkPurge_eq sent_after_Purge)
    subgoal by (simp add: succeeded_failed_length length_outcomes)
    subgoal by (rule o)
    subgoal by (rule d3)
    subgoal by (simp add: performBulkDelete_eq sent_DeleteStream g ex_orders_def ex_events_def
        ex_audit_def stream_of_def)
    subgoal by (simp add: performBulkDelete_eq a)
    done
qed

lemma press_Yes_confirm:
  "press_Yes js rx now (ui\<lparr>modal := Some (ConfirmModal m BulkDelete)\<rparr>)
     = performBulkDelete js (ui\<lparr>modal := None\<rparr>)"
  "press_Yes js rx now (ui\<lparr>modal := Some (ConfirmModal m BulkPurge)\<rparr>)
     = performBulkPurge js rx now (ui\<lparr>modal := None\<rparr>)"
  by (simp_all add: press_Yes_def CloseModal_def)

lemma ex_previewed_facts:
  "readOnly ex_previewed = False"
  "client ex_previewed = \<lparr>server = [ex_orders, ex_events, ex_audit], sent = []\<rparr>"
  "namePattern (queryBuilderView ex_previewed) = ''*''"
  "ageOp (queryBuilderView ex_previewed) = ''any''"
  "consumerOp (queryBuilderView ex_previewed) = ''any''"
  "messagesOp (queryBuilderView ex_previewed) = ''any''"
  by (simp_all add: ex_previewed_def previewMatches_eq ex_ui_def NewQueryBuilderView_def)

lemma mem_js_info: "js_StreamsInfo mem_js w = w"
  by (simp add: mem_js_def)

text \<open>
  C6, as stated: after a confirmed bulk delete the matched set is recomputed from the
  snapshot after the mutation. After the three previewed streams are deleted the server
  holds no stream, so a preview would give the empty set, but the matched set still holds
  the three deleted streams.
\<close>

theorem delete_keeps_matched_set_counterexample:
  "matchedStreams (queryBuilderView (press_Yes mem_js MatchString 0 (deleteMatched ex_previewed)))
     = [ex_orders, ex_events, ex_audit]
   \<and> filterStreams MatchString 0
        (queryBuilderView (press_Yes mem_js MatchString 0 (deleteMatched ex_previewed)))
        (fst (ListStreams mem_js
               (client (press_Yes mem_js MatchString 0 (deleteMatched ex_previewed))))) = []"
proof -
  have d: "deleteMatched ex_previewed
           = ex_previewed\<lparr>modal := Some (ConfirmModal
                (''Delete '' @ itoa 3 @ '' streams?'' @ nl @ nl
                 @ Join (streamNames [ex_orders, ex_events, ex_audit]) nl @ nl @ nl
                 @ ''This action cannot be undone!'') BulkDelete)\<rparr>"
    by (simp add: deleteMatched_def ex_previewed_matched ex_previewed_facts ui_defs)
  have U: "press_Yes mem_js MatchString 0 (deleteMatched ex_previewed)
           = performBulkDelete mem_js (ex_previewed\<lparr>modal := None\<rparr>)"
    by (simp add: d press_Yes_confirm)
  have m: "matchedStreams (queryBuilderView (performBulkDelete mem_js (ex_previewed\<lparr>modal := None\<rparr>)))
           = [ex_orders, ex_events, ex_audit]"
    by (simp add: performBulkDelete_eq ex_previewed_matched)
  have c: "server (client (performBulkDelete mem_js (ex_previewed\<lparr>modal := None\<rparr>))) = []"
    by (simp add: performBulkDelete_eq ex_previewed_matched ex_previewed_facts DeleteStream_def
        mem_js_def ex_orders_def ex_events_def ex_audit_def stream_of_def)
  show ?thesis
    unfolding U using m c by (simp add: ListStreams_def filterStreams_def mem_js_info)
qed

text \<open>
  C6, amended. After a confirmed bulk purge the report is shown and \<^verbatim>\<open>previewMatches\<close>
  runs at once: the matched set is the predicate evaluated on the snapshot that the server
  gives after the purge calls (purged streams show their new message counts), and the
  predicate is unchanged. After a confirmed bulk delete the report is shown and no preview
  runs: the view, with its matched set, is as before the delete, and dismissing the report
  closes it and shows the stream list.
\<close>

theorem repreview_after_purge:
  "matchedStreams (queryBuilderView (performBulkPurge js rx now ui))
     = filterStreams rx now (queryBuilderView ui)
         (fst (ListStreams js (client (performBulkPurge js rx now ui))))
   \<and> client (performBulkPurge js rx now ui)
     = after_calls (PurgeStream js) (client ui) (map Name (matchedStreams (queryBuilderView ui)))
   \<and> (queryBuilderView (performBulkPurge js rx now ui))
        \<lparr>matchedStreams := matchedStreams (queryBuilderView ui)\<rparr> = queryBuilderView ui
   \<and> press_Yes js rx now (ui\<lparr>modal := Some (ConfirmModal m BulkPurge)\<rparr>)
     = performBulkPurge js rx now (ui\<lparr>modal := None\<rparr>)
   \<and> press_Yes js rx now (ui\<lparr>modal := Some (ConfirmModal m BulkDelete)\<rparr>)
     = performBulkDelete js (ui\<lparr>modal := None\<rparr>)
   \<and> queryBuilderView (performBulkDelete js ui) = queryBuilderView ui
   \<and> currentPage (performBulkDelete js ui) = currentPage ui
   \<and> currentPage (press_OK (performBulkDelete js ui)) = ''streams''
   \<and> queryBuilderView (press_OK (performBulkDelete js ui)) = queryBuilderView ui
   \<and> matchedStreams (queryBuilderView (press_Yes mem_js MatchString 0 (purgeMatched ex_previewed)))
     = [stream_of ''orders'' 0 0 0, stream_of ''events'' 0 0 0, stream_of ''audit'' 2 0 0]"
proof -
  have d: "purgeMatched ex_previewed
           = ex_previewed\<lparr>modal := Some (ConfirmModal
                (''Purge all messages from '' @ itoa 3 @ '' streams?'' @ nl @ nl
                 @ Join (streamNames [ex_orders, ex_events, ex_audit]) nl @ nl @ nl
                 @ ''Consumers will remain, only messages deleted.'') BulkPurge)\<rparr>"
    by (simp add: purgeMatched_def ex_previewed_matched ex_previewed_facts ui_defs)
  have U: "press_Yes mem_js MatchString 0 (purgeMatched ex_previewed)
           = performBulkPurge mem_js MatchString 0 (ex_previewed\<lparr>modal := None\<rparr>)"
    by (simp add: d press_Yes_confirm)
  have c: "server (after_calls (PurgeStream mem_js) (client ex_previewed)
                     (map Name (matchedStreams (queryBuilderView ex_previewed))))
           = [stream_of ''orders'' 0 0 0, stream_of ''events'' 0 0 0, stream_of ''audit'' 2 0 0]"
    by (simp add: ex_previewed_matched ex_previewed_facts PurgeStream_def
        mem_js_def ex_orders_def ex_events_def ex_audit_def stream_of_def)
  have e: "matchedStreams
         (queryBuilderView (press_Yes mem_js MatchString 0 (purgeMatched ex_previewed)))
     = [stream_of ''orders'' 0 0 0, stream_of ''events'' 0 0 0, stream_of ''audit'' 2 0 0]"
    unfolding U
    by (simp add: performBulkPurge_eq c mem_js_info filterStreams_filter all_any_matches
        ex_previewed_facts(3-6))
  show ?thesis
    apply (intro conjI)
    subgoal by (simp add: performBulkPurge_eq ListStreams_def)
    subgoal by (simp add: performBulkPurge_eq)
    subgoal by (simp add: performBulkPurge_eq)
    subgoal by (rule press_Yes_confirm)
    subgoal by (rule press_Yes_confirm)
    subgoal by (simp add: performBulkDelete_eq)
    subgoal by (simp add: performBulkDelete_eq)
    subgoal by (simp add: performBulkDelete_eq press_OK_def ui_defs)
    subgoal by (simp add: performBulkDelete_eq press_OK_def ui_defs)
    subgoal by (rule e)
    done
qed

section \<open>The name clause\<close>

text \<open>
  C4. The name clause replaces \<^verbatim>\<open>*\<close> by \<^verbatim>\<open>.*\<close> and hands the rest of the pattern
  to the regular-expression engine as it is, so the other characters of the pattern keep
  their meaning as regular-expression operators. The pattern \<^verbatim>\<open>orders+eu\<close>, the exact
  name of the first stream of the snapshot, does not match that stream and matches the
  stream \<^verbatim>\<open>orderseu\<close>; the pattern \<^verbatim>\<open>order.\<close> matches the stream \<^verbatim>\<open>orders\<close>. A
  pattern of letters matches its own name and not the name in another case.
\<close>

theorem name_pattern_is_regexp:
  "filterStreams MatchString 0 (NewQueryBuilderView\<lparr>namePattern := ''orders+eu''\<rparr>)
     [stream_of ''orders+eu'' 0 0 0, stream_of ''orderseu'' 0 0 0]
     = [stream_of ''orderseu'' 0 0 0]
   \<and> matchesFilter MatchString 0 (NewQueryBuilderView\<lparr>namePattern := ''order.''\<rparr>)
       (stream_of ''orders'' 0 0 0) = True
   \<and> matchesFilter MatchString 0 (NewQueryBuilderView\<lparr>namePattern := ''orders''\<rparr>)
       (stream_of ''orders'' 0 0 0) = True
   \<and> matchesFilter MatchString 0 (NewQueryBuilderView\<lparr>namePattern := ''orders''\<rparr>)
       (stream_of ''Orders'' 0 0 0) = False"
  by (simp add: filterStreams_def match_defs rx_defs NewQueryBuilderView_def stream_of_def)

section \<open>Saved filters\<close>

lemma name_exists_iff:
  "name_exists fs x = (FilterName x \<in> FilterName ` set fs)"
  by (induction fs) auto

text \<open>
  C9. The stored presets are the filters that \<^verbatim>\<open>saveFilterToFile\<close> decodes from the
  filters file. Saving a filter whose name is the name of a stored preset returns an error
  and leaves every file as it is, so the stored presets, their contents and their number
  are unchanged. A save that returns no error has found no stored preset of that name and
  has written the encoding of the stored presets followed by the new filter to the filters
  file; when decoding undoes encoding, the stored presets afterwards are the stored
  presets before, unaltered and in the same order, followed by the new filter.
\<close>

theorem save_filter_duplicate:
  assumes "UserHomeDir p = Inr homeDir"
    and "filterPath = filepath_Join p [homeDir, ''.config'', ''n2s'', ''filters.yaml'']"
  shows
    "(FilterName filter' \<in> FilterName ` set (Filters (stored_config p files filterPath)) \<longrightarrow>
        fst (saveFilterToFile p filter' files) \<noteq> None
        \<and> snd (saveFilterToFile p filter' files) = files)
     \<and> (fst (saveFilterToFile p filter' files) = None \<longrightarrow>
          FilterName filter' \<notin> FilterName ` set (Filters (stored_config p files filterPath))
          \<and> (\<exists>data. yaml_Marshal p
                  ((stored_config p files filterPath)
                     \<lparr>Filters := Filters (stored_config p files filterPath) @ [filter']\<rparr>)
                  = Inr data
                \<and> snd (saveFilterToFile p filter' files) = files(filterPath \<mapsto> data)))
     \<and> (fst (saveFilterToFile p filter' files) = None
          \<and> (\<forall>c d. yaml_Marshal p c = Inr d \<longrightarrow> fst (yaml_Unmarshal p d) = c) \<longrightarrow>
          Filters (stored_config p (snd (saveFilterToFile p filter' files)) filterPath)
            = Filters (stored_config p files filterPath) @ [filter'])"
proof -
  let ?cfg = "stored_config p files filterPath"
  have dup: "fst (saveFilterToFile p filter' files) \<noteq> None
        \<and> snd (saveFilterToFile p filter' files) = files"
    if "FilterName filter' \<in> FilterName ` set (Filters ?cfg)"
    using that assms
    by (simp add: saveFilterToFile_def name_exists_iff Let_def split: option.split)
  have ok: "FilterName filter' \<notin> FilterName ` set (Filters ?cfg)
          \<and> (\<exists>data. yaml_Marshal p (?cfg\<lparr>Filters := Filters ?cfg @ [filter']\<rparr>) = Inr data
                \<and> snd (saveFilterToFile p filter' files) = files(filterPath \<mapsto> data))"
    if "fst (saveFilterToFile p filter' files) = None"
    using that assms
    by (auto simp add: saveFilterToFile_def name_exists_iff Let_def
        split: option.splits sum.splits if_splits prod.splits)
  have rt: "Filters (stored_config p (snd (saveFilterToFile p filter' files)) filterPath)
            = Filters ?cfg @ [filter']"
    if "fst (saveFilterToFile p filter' files) = None"
      and "\<forall>c d. yaml_Marshal p c = Inr d \<longrightarrow> fst (yaml_Unmarshal p d) = c"
  proof -
    from ok [OF that(1)] obtain data where
      d: "yaml_Marshal p (?cfg\<lparr>Filters := Filters ?cfg @ [filter']\<rparr>) = Inr data"
      and s: "snd (saveFilterToFile p filter' files) = files(filterPath \<mapsto> data)"
      by blast
    from that(2) d have "fst (yaml_Unmarshal p data) = ?cfg\<lparr>Filters := Filters ?cfg @ [filter']\<rparr>"
      by blast
    then show ?thesis
      by (simp add: s stored_config_def)
  qed
  show ?thesis
    using dup ok rt by blast
qed

lemma ex_path:
  "filepath_Join ex_platform [''/home/op'', ''.config'', ''n2s'', ''filters.yaml''] = ex_filters_yaml"
  by (simp add: ex_platform_def ex_filters_yaml_def)

theorem save_filter_duplicate_witness:
  "UserHomeDir ex_platform = Inr ''/home/op''
   \<and> FilterName ex_filter \<in> FilterName ` set (Filters (stored_config ex_platform ex_files ex_filters_yaml))
   \<and> fst (saveFilterToFile ex_platform ex_filter ex_files) \<noteq> None
   \<and> snd (saveFilterToFile ex_platform ex_filter ex_files) = ex_files
   \<and> fst (saveFilterToFile ex_platform ex_filter Map.empty) = None
   \<and> Filters (stored_config ex_platform (snd (saveFilterToFile ex_platform ex_filter Map.empty))
               ex_filters_yaml) = [ex_filter]
   \<and> fst (saveFilterToFile ex_platform (ex_filter\<lparr>FilterName := ''new''\<rparr>) ex_files) = None
   \<and> Filters (stored_config ex_platform
                (snd (saveFilterToFile ex_platform (ex_filter\<lparr>FilterName := ''new''\<rparr>) ex_files))
               ex_filters_yaml) = [ex_filter, ex_filter\<lparr>FilterName := ''new''\<rparr>]"
proof -
  have h: "UserHomeDir ex_platform = Inr ''/home/op''"
    by (simp add: ex_platform_def)
  have rt: "\<forall>c d. yaml_Marshal ex_platform c = Inr d \<longrightarrow> fst (yaml_Unmarshal ex_platform d) = c"
    by (simp add: ex_platform_def)
  have st: "Filters (stored_config ex_platform ex_files ex_filters_yaml) = [ex_filter]"
    "Filters (stored_config ex_platform Map.empty ex_filters_yaml) = []"
    by (simp_all add: stored_config_def ex_files_def ex_platform_def)
  have s0: "fst (saveFilterToFile ex_platform ex_filter Map.empty) = None"
    by (simp add: saveFilterToFile_def ex_platform_def stored_config_def)
  have s1: "fst (saveFilterToFile ex_platform (ex_filter\<lparr>FilterName := ''new''\<rparr>) ex_files) = None"
    by (simp add: saveFilterToFile_def ex_platform_def stored_config_def ex_files_def
        ex_filters_yaml_def ex_filter_def)
  show ?thesis
    using save_filter_duplicate [OF h ex_path [symmetric], of ex_filter ex_files]
      save_filter_duplicate [OF h ex_path [symmetric], of ex_filter Map.empty]
      save_filter_duplicate [OF h ex_path [symmetric], of "ex_filter\<lparr>FilterName := ''new''\<rparr>" ex_files]
      h rt st s0 s1
    by simp
qed

section \<open>The result sorter\<close>





























end
